theory Spec2Isabelle
  imports Main "HOL-Library.AList"
begin

section \<open>pymerger: the dependency sorter of \<^verbatim>\<open>src/pymerger/sorter.py\<close>\<close>

text \<open>
  The class \<^verbatim>\<open>DependencySorter\<close> maps every input file to a module name, reads the
  imports of every file, keeps those that name another input file and sorts the files so
  that a file comes after the files it imports.

  Python names that start with an underscore lose it here (\<^verbatim>\<open>_build_module_mapping\<close>
  is \<open>build_module_mapping\<close>), since an Isabelle name starts with a letter.
\<close>

subsection \<open>Data\<close>

text \<open>
  The exceptions the code can raise: \<^verbatim>\<open>StopIteration\<close> from \<^verbatim>\<open>next(...)\<close> on an
  exhausted generator (lines 24 and 60), \<^verbatim>\<open>KeyError\<close> from a dictionary read (line 93),
  \<^verbatim>\<open>ValueError\<close> with its message (line 72).
\<close>

datatype error = StopIteration | KeyError string | ValueError string

text \<open>
  What \<^verbatim>\<open>ast.walk\<close> yields, as far as the code looks at it: an \<^verbatim>\<open>ast.Import\<close> node
  with the names it imports, and an \<^verbatim>\<open>ast.ImportFrom\<close> node with its \<^verbatim>\<open>module\<close>
  (\<^verbatim>\<open>None\<close> for \<^verbatim>\<open>from . import x\<close>) and its \<^verbatim>\<open>level\<close> (the number of leading dots).
\<close>

datatype import_node = Import "string list" | ImportFrom "string option" nat

text \<open>
  The object. \<^verbatim>\<open>module_to_file\<close> is a \<^verbatim>\<open>dict\<close>, which iterates in insertion order:
  an association list, written only through \<open>AList.update\<close> (a new key goes to the end,
  an old key keeps its place and takes the new value). \<^verbatim>\<open>dep_graph\<close> is a
  \<^verbatim>\<open>defaultdict(set)\<close>: a total function, whose value at a key never written is the
  empty set. The value at a key is the sequence in which Python iterates that set.
\<close>

record sorter =
  files :: "string list"
  base_dir :: string
  module_to_file :: "(string \<times> string) list"
  dep_graph :: "string \<Rightarrow> string list"

text \<open>The three local variables of \<^verbatim>\<open>_topological_sort\<close> that \<^verbatim>\<open>visit\<close> updates.\<close>

record sort_state =
  visited :: "string set"
  temp_mark :: "string set"
  sorted_modules :: "string list"

subsection \<open>Strings\<close>

text \<open>\<^verbatim>\<open>os.sep\<close>, on a POSIX system.\<close>

definition os_sep :: char where
  "os_sep = CHR ''/''"

text \<open>\<^verbatim>\<open>s.replace(old, new)\<close> where \<^verbatim>\<open>old\<close> is one character.\<close>

definition replace :: "char \<Rightarrow> string \<Rightarrow> string \<Rightarrow> string" where
  "replace old new s = concat (map (\<lambda>c. if c = old then new else [c]) s)"

text \<open>
  \<^verbatim>\<open>s.rstrip(chars)\<close>: Python removes from the end of \<^verbatim>\<open>s\<close> every character that
  occurs in \<^verbatim>\<open>chars\<close>, until one does not.
\<close>

definition rstrip :: "string \<Rightarrow> string \<Rightarrow> string" where
  "rstrip chars s = rev (dropWhile (\<lambda>c. c \<in> set chars) (rev s))"

text \<open>\<^verbatim>\<open>s.split(sep)\<close> where \<^verbatim>\<open>sep\<close> is one character: never an empty list.\<close>

fun split :: "char \<Rightarrow> string \<Rightarrow> string list" where
  "split sep [] = [[]]"
| "split sep (c # cs) =
     (if c = sep then [] # split sep cs
      else (case split sep cs of
              [] \<Rightarrow> [[c]]
            | p # ps \<Rightarrow> (c # p) # ps))"

text \<open>\<^verbatim>\<open>sep.join(parts)\<close>.\<close>

fun join :: "string \<Rightarrow> string list \<Rightarrow> string" where
  "join sep [] = []"
| "join sep [p] = p"
| "join sep (p # q # ps) = p @ sep @ join sep (q # ps)"

subsection \<open>The module mapping (lines 7 to 19)\<close>

text \<open>Line 18: the module name of a relative path.\<close>

definition module_name_of :: "string \<Rightarrow> string" where
  "module_name_of rel_path = rstrip ''.py'' (replace os_sep ''.'' rel_path)"

text \<open>
  Lines 16 to 19. \<^verbatim>\<open>os.path.relpath\<close> is the platform's and is a parameter; it is
  called only when \<^verbatim>\<open>base_dir\<close> is not empty.
\<close>

definition build_module_mapping :: "(string \<Rightarrow> string \<Rightarrow> string) \<Rightarrow> sorter \<Rightarrow> sorter" where
  "build_module_mapping relpath self =
     self\<lparr>module_to_file :=
       fold (\<lambda>filepath mtf.
               let rel_path = (if base_dir self \<noteq> [] then relpath filepath (base_dir self)
                               else filepath);
                   module_name = module_name_of rel_path
               in AList.update module_name filepath mtf)
            (files self) (module_to_file self)\<rparr>"

text \<open>Lines 7 to 12: \<^verbatim>\<open>__init__\<close>.\<close>

definition DependencySorter :: "(string \<Rightarrow> string \<Rightarrow> string) \<Rightarrow> string list \<Rightarrow> string \<Rightarrow> sorter" where
  "DependencySorter relpath fs bd =
     build_module_mapping relpath
       \<lparr>files = fs, base_dir = bd, module_to_file = [], dep_graph = (\<lambda>_. [])\<rparr>"

text \<open>\<^verbatim>\<open>k in self.module_to_file\<close>.\<close>

definition contains :: "(string \<times> string) list \<Rightarrow> string \<Rightarrow> bool" where
  "contains mtf k \<longleftrightarrow> k \<in> set (map fst mtf)"

text \<open>
  Lines 24 and 60: \<^verbatim>\<open>next(k for k, v in self.module_to_file.items() if v == filepath)\<close>,
  the first key whose value is the file, \<^verbatim>\<open>StopIteration\<close> when there is none.
\<close>

definition module_of_file :: "(string \<times> string) list \<Rightarrow> string \<Rightarrow> error + string" where
  "module_of_file mtf filepath =
     (case find (\<lambda>kv. snd kv = filepath) mtf of
        None \<Rightarrow> Inl StopIteration
      | Some kv \<Rightarrow> Inr (fst kv))"

subsection \<open>Reading the imports of a file (lines 21 to 55)\<close>

text \<open>
  \<^verbatim>\<open>dependencies\<close> is a Python \<^verbatim>\<open>set\<close>. While it is filled it is the list of
  its elements in the order they were first added; \<^verbatim>\<open>dependencies.add(x)\<close> is:
\<close>

definition set_add :: "string \<Rightarrow> string list \<Rightarrow> string list" where
  "set_add x xs = (if x \<in> set xs then xs else xs @ [x])"

text \<open>Lines 33 to 36: the names of one \<^verbatim>\<open>import\<close> statement.\<close>

fun import_names :: "(string \<times> string) list \<Rightarrow> string list \<Rightarrow> string list \<Rightarrow> string list" where
  "import_names mtf [] dependencies = dependencies"
| "import_names mtf (full_module # names) dependencies =
     import_names mtf names
       (if contains mtf full_module then set_add full_module dependencies else dependencies)"

text \<open>
  Lines 44 to 48: the absolute name of a relative import, \<open>None\<close> when the level is
  greater than the number of parts of the importing module's name. \<^verbatim>\<open>parts[:-level]\<close>
  with \<^verbatim>\<open>0 < level <= len(parts)\<close> is the first \<^verbatim>\<open>len(parts) - level\<close> parts.
\<close>

definition relative_module :: "string \<Rightarrow> nat \<Rightarrow> string \<Rightarrow> string option" where
  "relative_module module_name level module =
     (let parts = split CHR ''.'' module_name in
      if level \<le> length parts
      then (let base = (if level > 0 then join ''.'' (take (length parts - level) parts)
                        else []);
                full_module = (if base \<noteq> [] then base @ ''.'' @ module else module)
            in Some full_module)
      else None)"

text \<open>Lines 32 to 50: the body of the loop over the nodes of the syntax tree.\<close>

fun import_step :: "(string \<times> string) list \<Rightarrow> string \<Rightarrow> import_node \<Rightarrow> string list \<Rightarrow> string list" where
  "import_step mtf module_name (Import names) dependencies =
     import_names mtf names dependencies"
| "import_step mtf module_name (ImportFrom None level) dependencies = dependencies"
| "import_step mtf module_name (ImportFrom (Some module) level) dependencies =
     (if module \<noteq> [] \<and> contains mtf module then set_add module dependencies
      else if module \<noteq> [] \<and> level > 0
      then (case relative_module module_name level module of
              None \<Rightarrow> dependencies
            | Some full_module \<Rightarrow>
                if contains mtf full_module then set_add full_module dependencies
                else dependencies)
      else dependencies)"

text \<open>
  Lines 21 to 55. Opening, reading and parsing the file is the parameter \<open>extract\<close>:
  \<open>Inr\<close> of the import nodes in the order \<^verbatim>\<open>ast.walk\<close> yields them, or \<open>Inl\<close> of
  the text of the exception. Nothing after the parse can raise, so a failure leaves
  \<^verbatim>\<open>dependencies\<close> empty. The result is what was printed and what was returned or
  raised.
\<close>

definition get_imports_from_file ::
  "(string \<Rightarrow> string + import_node list) \<Rightarrow> sorter \<Rightarrow> string \<Rightarrow> string list \<times> (error + string list)" where
  "get_imports_from_file extract self filepath =
     (case module_of_file (module_to_file self) filepath of
        Inl e \<Rightarrow> ([], Inl e)
      | Inr module_name \<Rightarrow>
          (case extract filepath of
             Inl e \<Rightarrow> ([''Error parsing '' @ filepath @ '': '' @ e], Inr [])
           | Inr nodes \<Rightarrow>
               ([], Inr (fold (import_step (module_to_file self) module_name) nodes []))))"

subsection \<open>The dependency graph (lines 57 to 62)\<close>

text \<open>
  The loop over \<^verbatim>\<open>self.files\<close>. Python does not fix the order in which a set of strings
  iterates (it follows their hashes, which change from one process to the next): the
  parameter \<open>set_order\<close> gives, for a set filled in a given order, the sequence in which
  it iterates, and that sequence is what \<open>dep_graph\<close> keeps.
\<close>

fun build_dependency_graph_loop ::
  "(string \<Rightarrow> string + import_node list) \<Rightarrow> (string list \<Rightarrow> string list) \<Rightarrow>
     string list \<Rightarrow> sorter \<Rightarrow> string list \<times> (error + sorter)" where
  "build_dependency_graph_loop extract set_order [] self = ([], Inr self)"
| "build_dependency_graph_loop extract set_order (filepath # rest) self =
     (case module_of_file (module_to_file self) filepath of
        Inl e \<Rightarrow> ([], Inl e)
      | Inr module_name \<Rightarrow>
          (case get_imports_from_file extract self filepath of
             (out, Inl e) \<Rightarrow> (out, Inl e)
           | (out, Inr dependencies) \<Rightarrow>
               (case build_dependency_graph_loop extract set_order rest
                       (self\<lparr>dep_graph :=
                          (dep_graph self)(module_name := set_order dependencies)\<rparr>) of
                  (out', r) \<Rightarrow> (out @ out', r))))"

definition build_dependency_graph ::
  "(string \<Rightarrow> string + import_node list) \<Rightarrow> (string list \<Rightarrow> string list) \<Rightarrow>
     sorter \<Rightarrow> string list \<times> (error + sorter)" where
  "build_dependency_graph extract set_order self =
     build_dependency_graph_loop extract set_order (files self) self"

subsection \<open>The topological sort (lines 64 to 86)\<close>

text \<open>
  \<^verbatim>\<open>visit\<close> (lines 70 to 80) and its loop over \<^verbatim>\<open>self.dep_graph[node]\<close>
  (lines 75 to 77), on the state they share.
\<close>

function visit :: "sorter \<Rightarrow> string \<Rightarrow> sort_state \<Rightarrow> error + sort_state"
  and visit_deps :: "sorter \<Rightarrow> string list \<Rightarrow> sort_state \<Rightarrow> error + sort_state" where
  "visit self node st =
     (if node \<in> temp_mark st
      then Inl (ValueError (''Circular dependency detected involving '' @ node))
      else if node \<notin> visited st
      then (case visit_deps self (dep_graph self node)
                   (st\<lparr>temp_mark := insert node (temp_mark st)\<rparr>) of
              Inl e \<Rightarrow> Inl e
            | Inr st' \<Rightarrow>
                Inr (st'\<lparr>temp_mark := temp_mark st' - {node},
                         visited := insert node (visited st'),
                         sorted_modules := sorted_modules st' @ [node]\<rparr>))
      else Inr st)"
| "visit_deps self [] st = Inr st"
| "visit_deps self (dep # deps) st =
     (if contains (module_to_file self) dep
      then (case visit self dep st of
              Inl e \<Rightarrow> Inl e
            | Inr st' \<Rightarrow> visit_deps self deps st')
      else visit_deps self deps st)"
  by pat_completeness auto

text \<open>
  The recursion is nested: the loop goes on from the state the inner call returns. It
  ends because a call that returns leaves \<^verbatim>\<open>temp_mark\<close> as it found it, and every
  call on a known module that goes deeper has one more known module in \<^verbatim>\<open>temp_mark\<close>.
\<close>

lemma visit_dom_temp_mark:
  "visit_visit_deps_dom (Inl (self, node, st)) \<Longrightarrow>
     visit self node st = Inr st' \<Longrightarrow> temp_mark st' = temp_mark st"
  "visit_visit_deps_dom (Inr (self, deps, st)) \<Longrightarrow>
     visit_deps self deps st = Inr st' \<Longrightarrow> temp_mark st' = temp_mark st"
proof (induction self node st and self deps st arbitrary: st' and st'
    rule: visit_visit_deps.pinduct)
  case (1 self node st)
  show ?case
  proof (cases "node \<in> temp_mark st")
    case True
    with "1.prems" "1.hyps" show ?thesis by (simp add: visit.psimps)
  next
    case nt: False
    show ?thesis
    proof (cases "node \<in> visited st")
      case True
      with nt "1.prems" "1.hyps" show ?thesis by (simp add: visit.psimps)
    next
      case nv: False
      with nt "1.prems" "1.hyps" obtain b where
        b: "visit_deps self (dep_graph self node)
              (st\<lparr>temp_mark := insert node (temp_mark st)\<rparr>) = Inr b"
        and s: "st' = b\<lparr>temp_mark := temp_mark b - {node},
                         visited := insert node (visited b),
                         sorted_modules := sorted_modules b @ [node]\<rparr>"
        by (cases "visit_deps self (dep_graph self node)
              (st\<lparr>temp_mark := insert node (temp_mark st)\<rparr>)")
           (auto simp: visit.psimps)
      from "1.IH" [OF nt nv b] have "temp_mark b = insert node (temp_mark st)" by simp
      with s nt show ?thesis by auto
    qed
  qed
next
  case (2 self st)
  then show ?case by (simp add: visit_deps.psimps)
next
  case (3 self dep deps st)
  show ?case
  proof (cases "contains (module_to_file self) dep")
    case True
    with "3.prems" "3.hyps" obtain b where b: "visit self dep st = Inr b"
      and r: "visit_deps self deps b = Inr st'"
      by (cases "visit self dep st") (simp_all add: visit_deps.psimps)
    from "3.IH"(1) [OF True b] "3.IH"(2) [OF True b r] show ?thesis by simp
  next
    case False
    with "3.prems" "3.hyps" have "visit_deps self deps st = Inr st'"
      by (simp add: visit_deps.psimps)
    from "3.IH"(3) [OF False this] show ?thesis .
  qed
qed

lemma card_Diff_insert_less:
  "finite K \<Longrightarrow> node \<in> K \<Longrightarrow> node \<notin> T \<Longrightarrow> card (K - insert node T) < card (K - T)"
proof -
  assume fin: "finite K" and k: "node \<in> K" and t: "node \<notin> T"
  have "K - insert node T \<subset> K - T" using k t by auto
  then show ?thesis using fin by (simp add: psubset_card_mono)
qed

termination visit
proof (relation "measures
    [\<lambda>x. case x of
           Inl (self, node, st) \<Rightarrow>
             card (set (map fst (module_to_file self)) - temp_mark st)
               + (if contains (module_to_file self) node then 0 else 1)
         | Inr (self, deps, st) \<Rightarrow>
             card (set (map fst (module_to_file self)) - temp_mark st),
     \<lambda>x. case x of Inl _ \<Rightarrow> 0 | Inr (self, deps, st) \<Rightarrow> Suc (length deps)]",
    goal_cases)
  case 1
  then show ?case by simp
next
  case (2 self node st)
  show ?case
  proof (cases "contains (module_to_file self) node")
    case True
    then have "node \<in> set (map fst (module_to_file self))" by (simp add: contains_def)
    from card_Diff_insert_less [OF _ this 2(1)] True show ?thesis by simp
  next
    case False
    then have "set (map fst (module_to_file self)) - insert node (temp_mark st)
        = set (map fst (module_to_file self)) - temp_mark st"
      by (auto simp: contains_def)
    with False show ?thesis by simp
  qed
next
  case (3 self dep deps st)
  then show ?case by simp
next
  case (4 self dep deps st x2)
  then show ?case by (simp add: visit_dom_temp_mark(1))
next
  case (5 self dep deps st)
  then show ?case by simp
qed

declare visit.simps [simp del]

text \<open>Lines 82 to 84: the loop over the keys of \<^verbatim>\<open>module_to_file\<close>.\<close>

fun sort_loop :: "sorter \<Rightarrow> string list \<Rightarrow> sort_state \<Rightarrow> error + sort_state" where
  "sort_loop self [] st = Inr st"
| "sort_loop self (module # modules) st =
     (if module \<notin> visited st
      then (case visit self module st of
              Inl e \<Rightarrow> Inl e
            | Inr st' \<Rightarrow> sort_loop self modules st')
      else sort_loop self modules st)"

definition topological_sort :: "sorter \<Rightarrow> error + string list" where
  "topological_sort self =
     (case sort_loop self (map fst (module_to_file self))
             \<lparr>visited = {}, temp_mark = {}, sorted_modules = []\<rparr> of
        Inl e \<Rightarrow> Inl e
      | Inr st \<Rightarrow> Inr (sorted_modules st))"

subsection \<open>The sorted files (lines 88 to 96)\<close>

text \<open>Line 93: \<^verbatim>\<open>[self.module_to_file[module] for module in sorted_modules]\<close>.\<close>

fun files_of_modules :: "(string \<times> string) list \<Rightarrow> string list \<Rightarrow> error + string list" where
  "files_of_modules mtf [] = Inr []"
| "files_of_modules mtf (module # modules) =
     (case map_of mtf module of
        None \<Rightarrow> Inl (KeyError module)
      | Some filepath \<Rightarrow>
          (case files_of_modules mtf modules of
             Inl e \<Rightarrow> Inl e
           | Inr filepaths \<Rightarrow> Inr (filepath # filepaths)))"

text \<open>
  \<^verbatim>\<open>get_sorted_files\<close>. The call that builds the graph is outside the \<^verbatim>\<open>try\<close>;
  the \<^verbatim>\<open>except\<close> clause catches \<^verbatim>\<open>ValueError\<close> only.
\<close>

definition get_sorted_files ::
  "(string \<Rightarrow> string + import_node list) \<Rightarrow> (string list \<Rightarrow> string list) \<Rightarrow>
     sorter \<Rightarrow> string list \<times> (error + string list)" where
  "get_sorted_files extract set_order self =
     (case build_dependency_graph extract set_order self of
        (out, Inl e) \<Rightarrow> (out, Inl e)
      | (out, Inr self') \<Rightarrow>
          (case (case topological_sort self' of
                   Inl e \<Rightarrow> Inl e
                 | Inr modules \<Rightarrow>
                     files_of_modules (module_to_file self') modules) of
             Inl (ValueError e) \<Rightarrow> (out @ [''Error: '' @ e], Inr [])
           | Inl e \<Rightarrow> (out, Inl e)
           | Inr filepaths \<Rightarrow> (out, Inr filepaths)))"

subsection \<open>The words of the specification\<close>

text \<open>
  An edge of the dependency graph over the registry: a known module and a known module
  in its dependency set.
\<close>

definition edges :: "sorter \<Rightarrow> (string \<times> string) set" where
  "edges self =
     {(m, d). contains (module_to_file self) m \<and> contains (module_to_file self) d
              \<and> d \<in> set (dep_graph self m)}"

text \<open>\<open>d\<close> occurs in the sequence, and \<open>m\<close> occurs after the first \<open>d\<close>.\<close>

fun precedes :: "'a \<Rightarrow> 'a \<Rightarrow> 'a list \<Rightarrow> bool" where
  "precedes d m [] = False"
| "precedes d m (x # xs) = (if x = d then m \<in> set xs else precedes d m xs)"

section \<open>Module names\<close>

text \<open>
  C4. The claim: the module name of a file is its path with every separator replaced by
  a dot and exactly the trailing extension \<^verbatim>\<open>.py\<close> removed, and nothing else removed.
  The code calls \<^verbatim>\<open>rstrip('.py')\<close>, which removes every trailing character among
  \<^verbatim>\<open>.\<close>, \<^verbatim>\<open>p\<close> and \<^verbatim>\<open>y\<close>: the file \<^verbatim>\<open>happy.py\<close> gets the module name \<^verbatim>\<open>ha\<close>,
  not \<^verbatim>\<open>happy\<close>.
\<close>

theorem C4_module_name_strips_too_much:
  "module_name_of ''happy.py'' = ''ha''
   \<and> module_to_file (DependencySorter relpath [''happy.py''] []) = [(''ha'', ''happy.py'')]"
  by (simp add: DependencySorter_def build_module_mapping_def module_name_of_def rstrip_def
      replace_def os_sep_def)

text \<open>
  C5. The claim: when two files get the same module name, no error is raised anywhere in
  the run and the run completes over the surviving entries. The later file does replace
  the earlier one in the mapping, but \<^verbatim>\<open>_build_dependency_graph\<close> then looks the
  earlier file up among the values of the mapping, where it no longer is, and
  \<^verbatim>\<open>next(...)\<close> raises \<^verbatim>\<open>StopIteration\<close> out of \<^verbatim>\<open>get_sorted_files\<close>.
\<close>

theorem C5_duplicate_identity_raises:
  "module_to_file (DependencySorter relpath [''a/b.py'', ''a.b.py''] [])
     = [(''a.b'', ''a.b.py'')]
   \<and> get_sorted_files extract set_order (DependencySorter relpath [''a/b.py'', ''a.b.py''] [])
     = ([], Inl StopIteration)"
  by (simp add: get_sorted_files_def build_dependency_graph_def DependencySorter_def
      build_module_mapping_def module_name_of_def rstrip_def replace_def os_sep_def
      module_of_file_def)

section \<open>Resolving imports\<close>

text \<open>
  C3, as the claim has it: in the module \<^verbatim>\<open>pkg.sub.mod\<close>, the relative import of
  \<^verbatim>\<open>x\<close> at level 1 would be \<^verbatim>\<open>pkg.x\<close>. The code drops one part of the module's name for
  every level, so level 1 gives \<^verbatim>\<open>pkg.sub.x\<close>: with \<^verbatim>\<open>pkg.x\<close> among the input files
  and \<^verbatim>\<open>pkg.sub.x\<close> not, the import adds nothing.
\<close>

theorem C3_level_one_counterexample:
  "relative_module ''pkg.sub.mod'' 1 ''x'' \<noteq> Some ''pkg.x''
   \<and> import_step [(''pkg.sub.mod'', ''pkg/sub/mod.py''), (''pkg.x'', ''pkg/x.py'')]
        ''pkg.sub.mod'' (ImportFrom (Some ''x'') 1) [] = []"
  by (simp add: relative_module_def contains_def)

text \<open>
  C3, amended: in the module \<^verbatim>\<open>pkg.sub.mod\<close>, when \<^verbatim>\<open>x\<close> itself is not the name of an
  input file, the relative import of \<^verbatim>\<open>x\<close> resolves to \<^verbatim>\<open>pkg.sub.x\<close> at level 1 and to
  \<^verbatim>\<open>pkg.x\<close> at level 2 (each added when it names an input file, dropped otherwise), and
  at a level greater than 3, the number of parts of the module's name, it resolves to
  nothing and is dropped.
\<close>

theorem C3_relative_resolution:
  assumes "\<not> contains mtf ''x''"
  shows "relative_module ''pkg.sub.mod'' 1 ''x'' = Some ''pkg.sub.x''
    \<and> import_step mtf ''pkg.sub.mod'' (ImportFrom (Some ''x'') 1) dependencies
        = (if contains mtf ''pkg.sub.x'' then set_add ''pkg.sub.x'' dependencies
           else dependencies)
    \<and> relative_module ''pkg.sub.mod'' 2 ''x'' = Some ''pkg.x''
    \<and> import_step mtf ''pkg.sub.mod'' (ImportFrom (Some ''x'') 2) dependencies
        = (if contains mtf ''pkg.x'' then set_add ''pkg.x'' dependencies else dependencies)
    \<and> (\<forall>level. length (split CHR ''.'' ''pkg.sub.mod'') < level \<longrightarrow>
          relative_module ''pkg.sub.mod'' level ''x'' = None
          \<and> import_step mtf ''pkg.sub.mod'' (ImportFrom (Some ''x'') level) dependencies
              = dependencies)"
  using assms by (simp add: relative_module_def)

theorem C3_relative_resolution_witness:
  "\<not> contains [(''pkg.sub.mod'', ''pkg/sub/mod.py''), (''pkg.x'', ''pkg/x.py'')] ''x''
   \<and> import_step [(''pkg.sub.mod'', ''pkg/sub/mod.py''), (''pkg.x'', ''pkg/x.py'')]
        ''pkg.sub.mod'' (ImportFrom (Some ''x'') 2) [] = [''pkg.x'']
   \<and> length (split CHR ''.'' ''pkg.sub.mod'') < 4
   \<and> import_step [(''pkg.sub.mod'', ''pkg/sub/mod.py''), (''pkg.x'', ''pkg/x.py'')]
        ''pkg.sub.mod'' (ImportFrom (Some ''x'') 4) [] = []"
proof -
  have h: "\<not> contains [(''pkg.sub.mod'', ''pkg/sub/mod.py''), (''pkg.x'', ''pkg/x.py'')] ''x''"
    by (simp add: contains_def)
  have l: "length (split CHR ''.'' ''pkg.sub.mod'') < 4" by simp
  from C3_relative_resolution [OF h, of "[]"] l h show ?thesis
    by (simp add: contains_def set_add_def)
qed

text \<open>
  C9. A relative import (level at least 1) whose module string is itself the name of an
  input file adds that name, whatever the level and the importing module: the branch of
  line 39 is taken and the relative resolution of lines 42 to 50 is not reached. (The
  parser gives \<^verbatim>\<open>None\<close>, never an empty string, when the statement names no module.)
\<close>

theorem C9_verbatim_match_first:
  assumes "0 < level" and "module \<noteq> []" and "contains mtf module"
  shows "import_step mtf module_name (ImportFrom (Some module) level) dependencies
    = set_add module dependencies"
  using assms by simp

theorem C9_verbatim_match_first_witness:
  "(0::nat) < 1 \<and> ''x'' \<noteq> []
   \<and> contains [(''pkg.mod'', ''pkg/mod.py''), (''pkg.x'', ''pkg/x.py''), (''x'', ''x.py'')] ''x''
   \<and> relative_module ''pkg.mod'' 1 ''x'' = Some ''pkg.x''
   \<and> import_step [(''pkg.mod'', ''pkg/mod.py''), (''pkg.x'', ''pkg/x.py''), (''x'', ''x.py'')]
        ''pkg.mod'' (ImportFrom (Some ''x'') 1) [] = [''x'']"
proof -
  have c: "contains [(''pkg.mod'', ''pkg/mod.py''), (''pkg.x'', ''pkg/x.py''), (''x'', ''x.py'')] ''x''"
    by (simp add: contains_def)
  have n: "''x'' \<noteq> []" by simp
  have l: "(0::nat) < 1" by simp
  from C9_verbatim_match_first [OF l n c, of "''pkg.mod''" "[]"] c show ?thesis
    by (simp add: set_add_def relative_module_def)
qed

end
